theory Spec2Isabelle
  imports Main "HOL-Library.Word" "HOL-Library.Signed_Division"
begin

section \<open>Time values\<close>

text \<open>
  The header \<^verbatim>\<open>TimeTracker.h\<close> works on the POSIX \<^verbatim>\<open>timeval\<close> struct. Its two fields
  have the types \<^verbatim>\<open>time_t\<close> and \<^verbatim>\<open>suseconds_t\<close>, both \<^verbatim>\<open>long\<close> on an LP64 target
  (64-bit Linux), which is the target this development fixes: both fields are 64-bit
  words read as two's complement (\<open>sint\<close>), compared with the signed order, and added
  with wrap-around: an overflowing signed addition, which C++ leaves undefined, is given
  the result of the two's complement addition of the machine.
  \<^verbatim>\<open>MICROSECONDS\<close> is an \<^verbatim>\<open>unsigned int\<close> (32 bits); in every expression of the
  header where it meets a \<^verbatim>\<open>long\<close> it is converted to \<^verbatim>\<open>long\<close> first, which keeps
  its value (\<open>ucast\<close>).
\<close>

type_synonym time_t = "64 word"
type_synonym suseconds_t = "64 word"
type_synonym uint32_t = "32 word"

record timeval =
  tv_sec :: time_t
  tv_usec :: suseconds_t

definition MICROSECONDS :: "32 word" where
  "MICROSECONDS = 1000000"

text \<open>
  Division and remainder of two \<^verbatim>\<open>long\<close> values truncate towards zero in C++
  (\<open>sdiv\<close> and \<open>smod\<close> on \<open>int\<close>).
\<close>

definition long_div :: "64 word \<Rightarrow> 64 word \<Rightarrow> 64 word" where
  "long_div a b = word_of_int (sint a sdiv sint b)"

definition long_mod :: "64 word \<Rightarrow> 64 word \<Rightarrow> 64 word" where
  "long_mod a b = word_of_int (sint a smod sint b)"

definition compare_timevals :: "timeval \<Rightarrow> timeval \<Rightarrow> int" where
  "compare_timevals left right =
     (if tv_sec left <s tv_sec right then - 1
      else if tv_sec right <s tv_sec left then 1
      else if tv_usec left <s tv_usec right then - 1
      else if tv_usec right <s tv_usec left then 1
      else 0)"

definition add_timevals :: "timeval \<Rightarrow> timeval \<Rightarrow> timeval" where
  "add_timevals left right =
     (let sec = tv_sec left + tv_sec right;
          usec = tv_usec left + tv_usec right
      in if ucast MICROSECONDS \<le>s usec
         then \<lparr>tv_sec = sec + 1, tv_usec = usec - ucast MICROSECONDS\<rparr>
         else \<lparr>tv_sec = sec, tv_usec = usec\<rparr>)"

section \<open>The tracker\<close>

record TimeTracker =
  timeout :: timeval
  now :: timeval

definition TimeTracker_default :: TimeTracker where
  "TimeTracker_default =
     \<lparr>timeout = \<lparr>tv_sec = 0, tv_usec = 0\<rparr>, now = \<lparr>tv_sec = 0, tv_usec = 0\<rparr>\<rparr>"

definition TimeTracker_timeval :: "timeval \<Rightarrow> TimeTracker" where
  "TimeTracker_timeval tmo = \<lparr>timeout = tmo, now = \<lparr>tv_sec = 0, tv_usec = 0\<rparr>\<rparr>"

text \<open>The constructor from a \<^verbatim>\<open>uint32_t\<close> divides in 32 unsigned bits.\<close>

definition TimeTracker_us :: "uint32_t \<Rightarrow> TimeTracker" where
  "TimeTracker_us timeout_us =
     \<lparr>timeout = \<lparr>tv_sec = ucast (timeout_us div MICROSECONDS),
                  tv_usec = ucast (timeout_us mod MICROSECONDS)\<rparr>,
      now = \<lparr>tv_sec = 0, tv_usec = 0\<rparr>\<rparr>"

definition TimeTracker_us_now :: "time_t \<Rightarrow> timeval \<Rightarrow> TimeTracker" where
  "TimeTracker_us_now timeout_us current =
     \<lparr>timeout = \<lparr>tv_sec = long_div timeout_us (ucast MICROSECONDS),
                  tv_usec = long_mod timeout_us (ucast MICROSECONDS)\<rparr>,
      now = current\<rparr>"

text \<open>The constructor from a count and a \<^verbatim>\<open>time_point\<close>, the instant given by the
  \<^verbatim>\<open>time_t\<close> that \<^verbatim>\<open>to_time_t\<close> returns for it.\<close>

definition TimeTracker_us_time_point :: "time_t \<Rightarrow> time_t \<Rightarrow> TimeTracker" where
  "TimeTracker_us_time_point timeout_us secs =
     \<lparr>timeout = \<lparr>tv_sec = long_div timeout_us (ucast MICROSECONDS),
                  tv_usec = long_mod timeout_us (ucast MICROSECONDS)\<rparr>,
      now = \<lparr>tv_sec = secs, tv_usec = 0\<rparr>\<rparr>"

definition set_now :: "timeval \<Rightarrow> TimeTracker \<Rightarrow> TimeTracker" where
  "set_now current_time s = s\<lparr>now := current_time\<rparr>"

definition get_now :: "TimeTracker \<Rightarrow> timeval" where
  "get_now s = now s"

definition set_timeout :: "time_t \<Rightarrow> TimeTracker \<Rightarrow> TimeTracker" where
  "set_timeout timeout_us s =
     s\<lparr>timeout := \<lparr>tv_sec = long_div timeout_us (ucast MICROSECONDS),
                    tv_usec = long_mod timeout_us (ucast MICROSECONDS)\<rparr>\<rparr>"

definition get_timeout :: "TimeTracker \<Rightarrow> timeval" where
  "get_timeout s = timeout s"

text \<open>
  \<^verbatim>\<open>get_timeout_us\<close> computes in \<^verbatim>\<open>long\<close> and returns a \<^verbatim>\<open>uint32_t\<close>: the
  conversion keeps the low 32 bits.
\<close>

definition get_timeout_us :: "TimeTracker \<Rightarrow> uint32_t" where
  "get_timeout_us s =
     ucast (tv_sec (timeout s) * ucast MICROSECONDS + tv_usec (timeout s))"

text \<open>
  The member functions that change the tracker return the result together with the
  tracker after the call.
\<close>

definition is_timed_out :: "timeval \<Rightarrow> timeval \<Rightarrow> TimeTracker \<Rightarrow> bool \<times> TimeTracker" where
  "is_timed_out current_time tmo s =
     (if compare_timevals (now s) current_time > 0 then (False, s)
      else let deadline = add_timevals (now s) tmo;
               s' = s\<lparr>now := current_time\<rparr>
           in (compare_timevals (now s') deadline > 0, s'))"

definition is_timed_out_default :: "timeval \<Rightarrow> TimeTracker \<Rightarrow> bool \<times> TimeTracker" where
  "is_timed_out_default current_time s = is_timed_out current_time (timeout s) s"

definition is_timed_out_and_update_if_timed_out ::
    "timeval \<Rightarrow> TimeTracker \<Rightarrow> bool \<times> TimeTracker" where
  "is_timed_out_and_update_if_timed_out current_time s =
     (if compare_timevals (now s) current_time > 0 then (False, s)
      else let deadline = add_timevals (now s) (timeout s);
               result = (compare_timevals current_time deadline > 0)
           in if result then (result, s\<lparr>now := current_time\<rparr>) else (result, s))"

text \<open>
  The other overloads that take a \<^verbatim>\<open>std::chrono::system_clock::time_point\<close> convert
  it with \<^verbatim>\<open>to_time_t\<close> and use zero microseconds, too.
\<close>

definition set_now_time_point :: "time_t \<Rightarrow> TimeTracker \<Rightarrow> TimeTracker" where
  "set_now_time_point secs s = s\<lparr>now := \<lparr>tv_sec = secs, tv_usec = 0\<rparr>\<rparr>"

definition is_timed_out_and_update_if_timed_out_time_point ::
    "time_t \<Rightarrow> TimeTracker \<Rightarrow> bool \<times> TimeTracker" where
  "is_timed_out_and_update_if_timed_out_time_point secs s =
     is_timed_out_and_update_if_timed_out \<lparr>tv_sec = secs, tv_usec = 0\<rparr> s"

section \<open>Sequences of timeout checks\<close>

text \<open>
  A caller's history of timeout checks, without \<^verbatim>\<open>set_now\<close> and \<^verbatim>\<open>set_timeout\<close>:
  each element is one call with its arguments, and \<open>perform_all\<close> runs them in order
  on the tracker.
\<close>

datatype call =
  IsTimedOut timeval timeval
| IsTimedOutDefault timeval
| IsTimedOutAndUpdate timeval

fun perform :: "call \<Rightarrow> TimeTracker \<Rightarrow> bool \<times> TimeTracker" where
  "perform (IsTimedOut current_time tmo) s = is_timed_out current_time tmo s"
| "perform (IsTimedOutDefault current_time) s = is_timed_out_default current_time s"
| "perform (IsTimedOutAndUpdate current_time) s =
     is_timed_out_and_update_if_timed_out current_time s"

fun perform_all :: "call list \<Rightarrow> TimeTracker \<Rightarrow> TimeTracker" where
  "perform_all [] s = s"
| "perform_all (c # cs) s = perform_all cs (snd (perform c s))"

section \<open>Vocabulary of the specification\<close>

text \<open>
  The flattened value of a time value is the mathematical integer
  \<open>seconds * 1000000 + microseconds\<close>, with both fields read as signed.
\<close>

definition flattened :: "timeval \<Rightarrow> int" where
  "flattened t = sint (tv_sec t) * 1000000 + sint (tv_usec t)"

definition usec_normalized :: "timeval \<Rightarrow> bool" where
  "usec_normalized t = (0 \<le> sint (tv_usec t) \<and> sint (tv_usec t) < 1000000)"

definition fields_nonneg :: "timeval \<Rightarrow> bool" where
  "fields_nonneg t = (0 \<le> sint (tv_sec t) \<and> 0 \<le> sint (tv_usec t))"

text \<open>
  \<open>long_fits k\<close>: the integer \<open>k\<close> is a value of a 64-bit \<^verbatim>\<open>long\<close>.
  \<open>add_timevals_no_overflow left right\<close>: none of the additions that
  \<^verbatim>\<open>add_timevals(left, right)\<close> performs leaves the range of \<^verbatim>\<open>long\<close>: the sum of the
  seconds, the sum of the microseconds, and the increment of the seconds when the
  microseconds carry.
\<close>

definition long_fits :: "int \<Rightarrow> bool" where
  "long_fits k = (- (2 ^ 63) \<le> k \<and> k < 2 ^ 63)"

definition add_timevals_no_overflow :: "timeval \<Rightarrow> timeval \<Rightarrow> bool" where
  "add_timevals_no_overflow left right =
     (let sec = sint (tv_sec left) + sint (tv_sec right);
          usec = sint (tv_usec left) + sint (tv_usec right)
      in long_fits sec \<and> long_fits usec \<and>
         (1000000 \<le> usec \<longrightarrow> long_fits (sec + 1)))"

section \<open>Auxiliary facts\<close>

subsection \<open>Comparison\<close>

lemma compare_timevals_range: "compare_timevals a b \<in> {- 1, 0, 1}"
  by (simp add: compare_timevals_def)

lemma compare_timevals_pos_iff:
  "0 < compare_timevals a b \<longleftrightarrow>
     sint (tv_sec b) < sint (tv_sec a) \<or>
     (sint (tv_sec a) = sint (tv_sec b) \<and> sint (tv_usec b) < sint (tv_usec a))"
  by (auto simp: compare_timevals_def word_sless_alt)

lemma compare_timevals_neg_iff:
  "compare_timevals a b < 0 \<longleftrightarrow>
     sint (tv_sec a) < sint (tv_sec b) \<or>
     (sint (tv_sec a) = sint (tv_sec b) \<and> sint (tv_usec a) < sint (tv_usec b))"
  by (auto simp: compare_timevals_def word_sless_alt)

lemma timeval_eq_sint:
  "a = b \<longleftrightarrow> sint (tv_sec a) = sint (tv_sec b) \<and> sint (tv_usec a) = sint (tv_usec b)"
  for a b :: timeval
proof
  assume "a = b"
  then show "sint (tv_sec a) = sint (tv_sec b) \<and> sint (tv_usec a) = sint (tv_usec b)"
    by simp
next
  assume h: "sint (tv_sec a) = sint (tv_sec b) \<and> sint (tv_usec a) = sint (tv_usec b)"
  have "tv_sec a = tv_sec b"
    using h by (intro signed_word_eqI [where ?'a = int]) simp
  moreover have "tv_usec a = tv_usec b"
    using h by (intro signed_word_eqI [where ?'a = int]) simp
  ultimately show "a = b"
    by simp
qed

lemma compare_timevals_zero_iff: "compare_timevals a b = 0 \<longleftrightarrow> a = b"
  unfolding timeval_eq_sint
  by (auto simp: compare_timevals_def word_sless_alt)

lemma compare_timevals_refl: "compare_timevals a a = 0"
  by (simp add: compare_timevals_zero_iff)

lemma compare_timevals_m1: "compare_timevals a b = - 1 \<longleftrightarrow> compare_timevals a b < 0"
  by (simp add: compare_timevals_def)

lemma compare_timevals_p1: "compare_timevals a b = 1 \<longleftrightarrow> 0 < compare_timevals a b"
  by (simp add: compare_timevals_def)

lemma compare_timevals_le_trans:
  assumes "compare_timevals a b \<le> 0" "compare_timevals b c \<le> 0"
  shows "compare_timevals a c \<le> 0"
proof -
  have "\<not> 0 < compare_timevals a b" "\<not> 0 < compare_timevals b c"
    using assms by simp_all
  then have "\<not> 0 < compare_timevals a c"
    unfolding compare_timevals_pos_iff by auto
  then show ?thesis by simp
qed

lemma flattened_less_iff:
  assumes "usec_normalized a" "usec_normalized b"
  shows "flattened a < flattened b \<longleftrightarrow>
     sint (tv_sec a) < sint (tv_sec b) \<or>
     (sint (tv_sec a) = sint (tv_sec b) \<and> sint (tv_usec a) < sint (tv_usec b))"
  using assms unfolding flattened_def usec_normalized_def by auto

lemma flattened_eq_iff:
  assumes "usec_normalized a" "usec_normalized b"
  shows "flattened a = flattened b \<longleftrightarrow> a = b"
  using assms unfolding flattened_def usec_normalized_def timeval_eq_sint
  by (cases "sint (tv_sec a)" "sint (tv_sec b)" rule: linorder_cases) auto

subsection \<open>The checkpoint never moves back in one call\<close>

lemma is_timed_out_now_mono:
  "compare_timevals (now s) (now (snd (is_timed_out ct tmo s))) \<le> 0"
  by (simp add: is_timed_out_def Let_def compare_timevals_refl)

lemma is_timed_out_and_update_now_mono:
  "compare_timevals (now s) (now (snd (is_timed_out_and_update_if_timed_out ct s))) \<le> 0"
  by (simp add: is_timed_out_and_update_if_timed_out_def Let_def compare_timevals_refl)

lemma perform_now_mono:
  "compare_timevals (now s) (now (snd (perform c s))) \<le> 0"
  by (cases c)
    (simp_all add: is_timed_out_default_def is_timed_out_now_mono
      is_timed_out_and_update_now_mono)

lemma perform_all_now_mono:
  "compare_timevals (now s) (now (perform_all cs s)) \<le> 0"
proof (induction cs arbitrary: s)
  case Nil
  show ?case by (simp add: compare_timevals_refl)
next
  case (Cons c cs)
  have "compare_timevals (now s) (now (snd (perform c s))) \<le> 0"
    by (rule perform_now_mono)
  moreover have
    "compare_timevals (now (snd (perform c s))) (now (perform_all cs (snd (perform c s)))) \<le> 0"
    by (rule Cons.IH)
  ultimately show ?case
    by (simp del: perform.simps) (rule compare_timevals_le_trans)
qed

subsection \<open>Signed reading of 64-bit sums\<close>

lemma ucast_MICROSECONDS: "(ucast MICROSECONDS :: 64 word) = 1000000"
  by (simp add: MICROSECONDS_def)

lemma sint_long_bounds:
  "- (2 ^ 63) \<le> sint w" "sint w < 2 ^ 63" for w :: "64 word"
  using sint_ge [of w] sint_lt [of w] by simp_all

lemma uint_eq_sint_nonneg:
  "uint w = sint w" if "0 \<le> sint w" for w :: "64 word"
proof -
  have "sint w < 2 ^ 64"
    using sint_long_bounds(2) [of w] by simp
  then have "take_bit 64 (sint w) = sint w"
    using that by (simp add: take_bit_int_eq_self)
  then show ?thesis
    by (simp add: uint_sint)
qed

lemma sint_word_of_int_long:
  "sint (word_of_int k :: 64 word) = k \<longleftrightarrow> long_fits k"
  by (simp add: sint_sbintrunc' signed_take_bit_int_eq_self_iff long_fits_def)

lemma sint_sum_long:
  "sint (x + y) = sint x + sint y" if "long_fits (sint x + sint y)" for x y :: "64 word"
proof -
  have "x + y = word_of_int (sint x + sint y)"
    by simp
  then show ?thesis
    using that sint_word_of_int_long by metis
qed

subsection \<open>Division by \<^verbatim>\<open>MICROSECONDS\<close>\<close>

lemma long_div_mod_MICROSECONDS:
  "long_div c (ucast MICROSECONDS) * ucast MICROSECONDS + long_mod c (ucast MICROSECONDS) = c"
proof -
  have "long_div c 1000000 * 1000000 + long_mod c 1000000 =
      word_of_int (sint c sdiv 1000000 * 1000000 + sint c smod 1000000)"
    by (simp add: long_div_def long_mod_def)
  also have "\<dots> = word_of_int (sint c)"
    by (simp only: sdiv_mult_smod_eq)
  finally show ?thesis
    by (simp add: ucast_MICROSECONDS)
qed

text \<open>Whatever the count, the accessor returns its low 32 bits.\<close>

lemma get_timeout_us_set_timeout:
  "get_timeout_us (set_timeout c s) = ucast c"
  by (simp add: get_timeout_us_def set_timeout_def long_div_mod_MICROSECONDS)

text \<open>The first count that the 32-bit result cannot hold reads back as 0.\<close>

lemma get_timeout_us_truncates:
  "get_timeout_us (set_timeout 4294967296 s) = 0"
  by (simp add: get_timeout_us_set_timeout)

subsection \<open>Fields of a sum\<close>

lemma tv_sec_add_timevals:
  "tv_sec (add_timevals l r) =
     word_of_int (sint (tv_sec l) + sint (tv_sec r) +
       (if 1000000 \<le> sint (tv_usec l + tv_usec r) then 1 else 0))"
  by (simp add: add_timevals_def Let_def ucast_MICROSECONDS word_sle_eq)

lemma tv_usec_add_timevals:
  "tv_usec (add_timevals l r) =
     word_of_int (sint (tv_usec l + tv_usec r) -
       (if 1000000 \<le> sint (tv_usec l + tv_usec r) then 1000000 else 0))"
  by (simp add: add_timevals_def Let_def ucast_MICROSECONDS word_sle_eq)

lemma sint_tv_usec_add_timevals:
  assumes "long_fits (sint (tv_usec l) + sint (tv_usec r))"
  shows "sint (tv_usec (add_timevals l r)) =
     sint (tv_usec l) + sint (tv_usec r) -
       (if 1000000 \<le> sint (tv_usec l) + sint (tv_usec r) then 1000000 else 0)"
proof -
  let ?u = "sint (tv_usec l) + sint (tv_usec r)"
  have u: "sint (tv_usec l + tv_usec r) = ?u"
    using assms by (rule sint_sum_long)
  have "long_fits (?u - (if 1000000 \<le> ?u then 1000000 else 0))"
    using assms by (simp add: long_fits_def)
  then have "sint (word_of_int (?u - (if 1000000 \<le> ?u then 1000000 else 0)) :: 64 word) =
      ?u - (if 1000000 \<le> ?u then 1000000 else 0)"
    by (simp only: sint_word_of_int_long)
  then show ?thesis
    by (simp only: tv_usec_add_timevals u)
qed

lemma sint_tv_sec_add_timevals:
  assumes "long_fits (sint (tv_usec l) + sint (tv_usec r))"
  shows "sint (tv_sec (add_timevals l r)) =
      sint (tv_sec l) + sint (tv_sec r) +
        (if 1000000 \<le> sint (tv_usec l) + sint (tv_usec r) then 1 else 0)
    \<longleftrightarrow> long_fits (sint (tv_sec l) + sint (tv_sec r) +
        (if 1000000 \<le> sint (tv_usec l) + sint (tv_usec r) then 1 else 0))"
proof -
  have u: "sint (tv_usec l + tv_usec r) = sint (tv_usec l) + sint (tv_usec r)"
    using assms by (rule sint_sum_long)
  show ?thesis
    by (simp only: tv_sec_add_timevals u sint_word_of_int_long)
qed

text \<open>A deadline is never before its checkpoint when the duration is not negative
  and the sum does not overflow.\<close>

lemma compare_add_timevals_le:
  assumes "fields_nonneg r" "add_timevals_no_overflow l r"
  shows "compare_timevals l (add_timevals l r) \<le> 0"
proof -
  let ?u = "sint (tv_usec l) + sint (tv_usec r)"
  let ?s = "sint (tv_sec l) + sint (tv_sec r)"
  let ?c = "if 1000000 \<le> ?u then 1 else 0 :: int"
  have ufits: "long_fits ?u" and sfits: "long_fits (?s + ?c)"
    using assms(2) by (auto simp: add_timevals_no_overflow_def Let_def)
  have usec: "sint (tv_usec (add_timevals l r)) = ?u - (if 1000000 \<le> ?u then 1000000 else 0)"
    using ufits by (rule sint_tv_usec_add_timevals)
  have sec: "sint (tv_sec (add_timevals l r)) = ?s + ?c"
    using sfits sint_tv_sec_add_timevals [OF ufits] by simp
  have "\<not> 0 < compare_timevals l (add_timevals l r)"
    using assms(1) unfolding compare_timevals_pos_iff usec sec fields_nonneg_def
    by auto
  then show ?thesis
    by simp
qed

lemma is_timed_out_twice:
  assumes "fields_nonneg tmo" "add_timevals_no_overflow current_time tmo"
  shows "is_timed_out current_time tmo (snd (is_timed_out current_time tmo s)) =
           (False, snd (is_timed_out current_time tmo s))"
proof (cases "0 < compare_timevals (now s) current_time")
  case True
  then show ?thesis
    by (simp add: is_timed_out_def)
next
  case False
  have "\<not> 0 < compare_timevals current_time (add_timevals current_time tmo)"
    using compare_add_timevals_le [OF assms] by simp
  with False show ?thesis
    by (simp add: is_timed_out_def Let_def compare_timevals_refl)
qed

text \<open>With a well-formed duration and no overflow, a true result of the
  update-only-on-timeout check really moves the checkpoint to a different value.\<close>

lemma is_timed_out_and_update_if_timed_out_changes_now:
  assumes "fields_nonneg (timeout s)" "add_timevals_no_overflow (now s) (timeout s)"
  shows "fst (is_timed_out_and_update_if_timed_out current_time s) \<longleftrightarrow>
     now (snd (is_timed_out_and_update_if_timed_out current_time s)) \<noteq> now s"
proof -
  have "\<not> 0 < compare_timevals (now s) (add_timevals (now s) (timeout s))"
    using compare_add_timevals_le [OF assms] by simp
  then show ?thesis
    by (auto simp: is_timed_out_and_update_if_timed_out_def Let_def)
qed

text \<open>The facts that evaluate the two helpers on concrete time values.\<close>

lemmas timeval_eval =
  compare_timevals_def add_timevals_def MICROSECONDS_def word_sle_eq word_sless_alt

section \<open>Properties of the specification\<close>

text \<open>
  C1. Whenever the checkpoint is not after \<open>current_time\<close> in the two-field order,
  \<^verbatim>\<open>is_timed_out\<close> takes the deadline to be the old checkpoint plus the effective timeout
  (the argument of the two-argument overload, the configured timeout of the one-argument
  overload), stores \<open>current_time\<close> as the checkpoint, and returns true exactly when the
  stored checkpoint is strictly after the deadline.
\<close>

theorem is_timed_out_guard_passed:
  assumes "compare_timevals (now s) current_time \<le> 0"
  shows "is_timed_out current_time tmo s =
           (0 < compare_timevals (now (s\<lparr>now := current_time\<rparr>)) (add_timevals (now s) tmo),
            s\<lparr>now := current_time\<rparr>)
       \<and> is_timed_out_default current_time s =
           (0 < compare_timevals (now (s\<lparr>now := current_time\<rparr>))
                  (add_timevals (now s) (timeout s)),
            s\<lparr>now := current_time\<rparr>)"
  using assms by (simp add: is_timed_out_default_def is_timed_out_def Let_def)

text \<open>The two five-second scenarios of the specification: a sample at 102 s and one at
  106 s against the checkpoint 100 s.\<close>

theorem is_timed_out_guard_passed_witness:
  "compare_timevals
     (now \<lparr>timeout = \<lparr>tv_sec = 5, tv_usec = 0\<rparr>, now = \<lparr>tv_sec = 100, tv_usec = 0\<rparr>\<rparr>)
     \<lparr>tv_sec = 106, tv_usec = 0\<rparr> \<le> 0
   \<and> is_timed_out_default \<lparr>tv_sec = 106, tv_usec = 0\<rparr>
       \<lparr>timeout = \<lparr>tv_sec = 5, tv_usec = 0\<rparr>, now = \<lparr>tv_sec = 100, tv_usec = 0\<rparr>\<rparr> =
       (True, \<lparr>timeout = \<lparr>tv_sec = 5, tv_usec = 0\<rparr>, now = \<lparr>tv_sec = 106, tv_usec = 0\<rparr>\<rparr>)
   \<and> is_timed_out \<lparr>tv_sec = 102, tv_usec = 0\<rparr> \<lparr>tv_sec = 5, tv_usec = 0\<rparr>
       \<lparr>timeout = \<lparr>tv_sec = 5, tv_usec = 0\<rparr>, now = \<lparr>tv_sec = 100, tv_usec = 0\<rparr>\<rparr> =
       (False, \<lparr>timeout = \<lparr>tv_sec = 5, tv_usec = 0\<rparr>, now = \<lparr>tv_sec = 102, tv_usec = 0\<rparr>\<rparr>)"
proof -
  let ?s = "\<lparr>timeout = \<lparr>tv_sec = 5, tv_usec = 0\<rparr>, now = \<lparr>tv_sec = 100, tv_usec = 0\<rparr>\<rparr>"
  have g1: "compare_timevals (now ?s) \<lparr>tv_sec = 106, tv_usec = 0\<rparr> \<le> 0"
    by (simp add: timeval_eval)
  have g2: "compare_timevals (now ?s) \<lparr>tv_sec = 102, tv_usec = 0\<rparr> \<le> 0"
    by (simp add: timeval_eval)
  show ?thesis
    using g1 is_timed_out_guard_passed [OF g1, of "\<lparr>tv_sec = 5, tv_usec = 0\<rparr>"]
      is_timed_out_guard_passed [OF g2, of "\<lparr>tv_sec = 5, tv_usec = 0\<rparr>"]
    by (simp add: timeval_eval)
qed

text \<open>
  C2. \<^verbatim>\<open>is_timed_out_and_update_if_timed_out\<close> assigns the checkpoint if and only if it
  returns true: the tracker after the call is the old tracker with the checkpoint set to
  \<open>current_time\<close> when the result is true, and the old tracker otherwise. When the guard
  passes (the checkpoint is not after \<open>current_time\<close>), the result is exactly
  ``\<open>current_time\<close> is strictly after the old checkpoint plus the configured timeout'',
  with \<open>current_time\<close> as passed in. For a tracker whose timeout has non-negative fields
  and whose deadline does not overflow, the assignment moreover changes the value of the
  checkpoint, so the checkpoint differs after the call if and only if the result is true.
\<close>

theorem is_timed_out_and_update_if_timed_out_updates_iff_true:
  "snd (is_timed_out_and_update_if_timed_out current_time s) =
     (if fst (is_timed_out_and_update_if_timed_out current_time s)
      then s\<lparr>now := current_time\<rparr> else s)
   \<and> (compare_timevals (now s) current_time \<le> 0 \<longrightarrow>
        fst (is_timed_out_and_update_if_timed_out current_time s) =
          (0 < compare_timevals current_time (add_timevals (now s) (timeout s))))
   \<and> (fields_nonneg (timeout s) \<and> add_timevals_no_overflow (now s) (timeout s) \<longrightarrow>
        (fst (is_timed_out_and_update_if_timed_out current_time s) \<longleftrightarrow>
          now (snd (is_timed_out_and_update_if_timed_out current_time s)) \<noteq> now s))"
proof -
  have "snd (is_timed_out_and_update_if_timed_out current_time s) =
     (if fst (is_timed_out_and_update_if_timed_out current_time s)
      then s\<lparr>now := current_time\<rparr> else s)"
    by (simp add: is_timed_out_and_update_if_timed_out_def Let_def)
  moreover have "compare_timevals (now s) current_time \<le> 0 \<longrightarrow>
        fst (is_timed_out_and_update_if_timed_out current_time s) =
          (0 < compare_timevals current_time (add_timevals (now s) (timeout s)))"
    by (simp add: is_timed_out_and_update_if_timed_out_def Let_def)
  ultimately show ?thesis
    using is_timed_out_and_update_if_timed_out_changes_now [of s current_time]
    by blast
qed

text \<open>The two one-second scenarios of the specification: checkpoint (10, 500000),
  samples (11, 600000) and (11, 400000).\<close>

theorem is_timed_out_and_update_if_timed_out_updates_iff_true_witness:
  "compare_timevals
     (now \<lparr>timeout = \<lparr>tv_sec = 1, tv_usec = 0\<rparr>, now = \<lparr>tv_sec = 10, tv_usec = 500000\<rparr>\<rparr>)
     \<lparr>tv_sec = 11, tv_usec = 600000\<rparr> \<le> 0
   \<and> fields_nonneg \<lparr>tv_sec = 1, tv_usec = 0\<rparr>
   \<and> add_timevals_no_overflow \<lparr>tv_sec = 10, tv_usec = 500000\<rparr> \<lparr>tv_sec = 1, tv_usec = 0\<rparr>
   \<and> is_timed_out_and_update_if_timed_out \<lparr>tv_sec = 11, tv_usec = 600000\<rparr>
       \<lparr>timeout = \<lparr>tv_sec = 1, tv_usec = 0\<rparr>, now = \<lparr>tv_sec = 10, tv_usec = 500000\<rparr>\<rparr> =
       (True, \<lparr>timeout = \<lparr>tv_sec = 1, tv_usec = 0\<rparr>,
               now = \<lparr>tv_sec = 11, tv_usec = 600000\<rparr>\<rparr>)
   \<and> is_timed_out_and_update_if_timed_out \<lparr>tv_sec = 11, tv_usec = 400000\<rparr>
       \<lparr>timeout = \<lparr>tv_sec = 1, tv_usec = 0\<rparr>, now = \<lparr>tv_sec = 10, tv_usec = 500000\<rparr>\<rparr> =
       (False, \<lparr>timeout = \<lparr>tv_sec = 1, tv_usec = 0\<rparr>,
                now = \<lparr>tv_sec = 10, tv_usec = 500000\<rparr>\<rparr>)"
proof -
  let ?s = "\<lparr>timeout = \<lparr>tv_sec = 1, tv_usec = 0\<rparr>, now = \<lparr>tv_sec = 10, tv_usec = 500000\<rparr>\<rparr>"
  have g1: "compare_timevals (now ?s) \<lparr>tv_sec = 11, tv_usec = 600000\<rparr> \<le> 0"
    by (simp add: timeval_eval)
  have g2: "compare_timevals (now ?s) \<lparr>tv_sec = 11, tv_usec = 400000\<rparr> \<le> 0"
    by (simp add: timeval_eval)
  have wf: "fields_nonneg \<lparr>tv_sec = 1, tv_usec = 0\<rparr>"
    "add_timevals_no_overflow \<lparr>tv_sec = 10, tv_usec = 500000\<rparr> \<lparr>tv_sec = 1, tv_usec = 0\<rparr>"
    by (simp_all add: fields_nonneg_def add_timevals_no_overflow_def long_fits_def)
  have r1: "fst (is_timed_out_and_update_if_timed_out \<lparr>tv_sec = 11, tv_usec = 600000\<rparr> ?s)"
    using g1 is_timed_out_and_update_if_timed_out_updates_iff_true
      [of "\<lparr>tv_sec = 11, tv_usec = 600000\<rparr>" ?s]
    by (simp add: timeval_eval)
  have r2: "\<not> fst (is_timed_out_and_update_if_timed_out \<lparr>tv_sec = 11, tv_usec = 400000\<rparr> ?s)"
    using g2 is_timed_out_and_update_if_timed_out_updates_iff_true
      [of "\<lparr>tv_sec = 11, tv_usec = 400000\<rparr>" ?s]
    by (simp add: timeval_eval)
  have s1: "snd (is_timed_out_and_update_if_timed_out \<lparr>tv_sec = 11, tv_usec = 600000\<rparr> ?s) =
      ?s\<lparr>now := \<lparr>tv_sec = 11, tv_usec = 600000\<rparr>\<rparr>"
    using r1 is_timed_out_and_update_if_timed_out_updates_iff_true
      [of "\<lparr>tv_sec = 11, tv_usec = 600000\<rparr>" ?s]
    by simp
  have s2: "snd (is_timed_out_and_update_if_timed_out \<lparr>tv_sec = 11, tv_usec = 400000\<rparr> ?s) = ?s"
    using r2 is_timed_out_and_update_if_timed_out_updates_iff_true
      [of "\<lparr>tv_sec = 11, tv_usec = 400000\<rparr>" ?s]
    by simp
  show ?thesis
    using g1 wf r1 r2 s1 s2 by (simp add: prod_eq_iff)
qed

text \<open>
  C3. Across any sequence of calls of \<^verbatim>\<open>is_timed_out\<close> (either overload) and
  \<^verbatim>\<open>is_timed_out_and_update_if_timed_out\<close>, the checkpoint never moves back in the
  two-field order: it is not after the checkpoint that a single call leaves, and not after
  the checkpoint that a whole sequence of calls leaves.
\<close>

theorem now_monotone_across_calls:
  "compare_timevals (now s) (now (snd (perform c s))) \<le> 0
   \<and> compare_timevals (now s) (now (perform_all cs s)) \<le> 0"
  by (simp only: perform_now_mono perform_all_now_mono)

theorem now_monotone_across_calls_witness:
  "compare_timevals \<lparr>tv_sec = 100, tv_usec = 0\<rparr>
     (now (perform_all
       [IsTimedOutDefault \<lparr>tv_sec = 102, tv_usec = 0\<rparr>,
        IsTimedOutAndUpdate \<lparr>tv_sec = 101, tv_usec = 0\<rparr>,
        IsTimedOut \<lparr>tv_sec = 103, tv_usec = 7\<rparr> \<lparr>tv_sec = 0, tv_usec = 1\<rparr>]
       \<lparr>timeout = \<lparr>tv_sec = 5, tv_usec = 0\<rparr>, now = \<lparr>tv_sec = 100, tv_usec = 0\<rparr>\<rparr>)) \<le> 0"
  using now_monotone_across_calls
    [of "\<lparr>timeout = \<lparr>tv_sec = 5, tv_usec = 0\<rparr>, now = \<lparr>tv_sec = 100, tv_usec = 0\<rparr>\<rparr>"
      "IsTimedOutDefault \<lparr>tv_sec = 102, tv_usec = 0\<rparr>"
      "[IsTimedOutDefault \<lparr>tv_sec = 102, tv_usec = 0\<rparr>,
        IsTimedOutAndUpdate \<lparr>tv_sec = 101, tv_usec = 0\<rparr>,
        IsTimedOut \<lparr>tv_sec = 103, tv_usec = 7\<rparr> \<lparr>tv_sec = 0, tv_usec = 1\<rparr>]"]
  by (simp del: perform_all.simps)

text \<open>
  C4. For every microsecond count from 0 up to \<open>2 ^ 32 - 1\<close>, the counts that the
  \<^verbatim>\<open>uint32_t\<close> result of \<^verbatim>\<open>get_timeout_us\<close> can hold, setting the timeout with
  \<^verbatim>\<open>set_timeout\<close> and reading it back with \<^verbatim>\<open>get_timeout_us\<close> returns the same count.
\<close>

theorem set_timeout_get_timeout_us_roundtrip:
  assumes "0 \<le> sint timeout_us" "sint timeout_us < 2 ^ 32"
  shows "uint (get_timeout_us (set_timeout timeout_us s)) = sint timeout_us"
proof -
  have "uint (get_timeout_us (set_timeout timeout_us s)) = take_bit 32 (uint timeout_us)"
    by (simp add: get_timeout_us_set_timeout unsigned_ucast_eq)
  also have "\<dots> = take_bit 32 (sint timeout_us)"
    using assms(1) by (simp add: uint_eq_sint_nonneg)
  also have "\<dots> = sint timeout_us"
    using assms by (simp add: take_bit_int_eq_self)
  finally show ?thesis .
qed

theorem set_timeout_get_timeout_us_roundtrip_witness:
  "0 \<le> sint (4294967295 :: time_t) \<and> sint (4294967295 :: time_t) < 2 ^ 32
   \<and> uint (get_timeout_us (set_timeout 4294967295 TimeTracker_default)) = 4294967295"
proof -
  have h: "0 \<le> sint (4294967295 :: time_t)" "sint (4294967295 :: time_t) < 2 ^ 32"
    by simp_all
  show ?thesis
    using h set_timeout_get_timeout_us_roundtrip [OF h, of TimeTracker_default]
    by simp
qed

text \<open>
  C5 (as amended). For time values \<open>a\<close>, \<open>b\<close> with non-negative fields and microsecond
  fields below 1,000,000, the microsecond field of \<^verbatim>\<open>add_timevals(a, b)\<close> is in
  \<open>[0, 1000000)\<close>, and the flattened value of the result is the exact integer sum of the
  flattened values of \<open>a\<close> and \<open>b\<close> if and only if the addition does not overflow, that
  is, the sum of the two seconds fields plus the microsecond carry is at most
  \<open>2 ^ 63 - 1\<close>.
\<close>

theorem add_timevals_normalizes_exact:
  assumes "fields_nonneg a" "fields_nonneg b" "usec_normalized a" "usec_normalized b"
  shows "usec_normalized (add_timevals a b)
       \<and> (flattened (add_timevals a b) = flattened a + flattened b
            \<longleftrightarrow> add_timevals_no_overflow a b)
       \<and> (add_timevals_no_overflow a b \<longleftrightarrow>
            sint (tv_sec a) + sint (tv_sec b) +
              (if 1000000 \<le> sint (tv_usec a) + sint (tv_usec b) then 1 else 0) < 2 ^ 63)"
proof -
  let ?u = "sint (tv_usec a) + sint (tv_usec b)"
  let ?s = "sint (tv_sec a) + sint (tv_sec b)"
  let ?c = "if 1000000 \<le> ?u then 1 else 0 :: int"
  have ubounds: "0 \<le> ?u" "?u < 2000000"
    using assms(3,4) by (simp_all add: usec_normalized_def)
  then have ufits: "long_fits ?u"
    by (simp add: long_fits_def)
  have usec: "sint (tv_usec (add_timevals a b)) = ?u - (if 1000000 \<le> ?u then 1000000 else 0)"
    using ufits by (rule sint_tv_usec_add_timevals)
  have norm: "usec_normalized (add_timevals a b)"
    using ubounds by (simp add: usec_normalized_def usec)
  have sbounds: "0 \<le> ?s"
    using assms(1,2) by (simp add: fields_nonneg_def)
  have nov: "add_timevals_no_overflow a b \<longleftrightarrow> long_fits (?s + ?c)"
    using sbounds ufits by (auto simp: add_timevals_no_overflow_def Let_def long_fits_def)
  have bound: "long_fits (?s + ?c) \<longleftrightarrow> ?s + ?c < 2 ^ 63"
    using sbounds by (auto simp: long_fits_def)
  have sec: "sint (tv_sec (add_timevals a b)) = ?s + ?c \<longleftrightarrow> long_fits (?s + ?c)"
    using ufits by (rule sint_tv_sec_add_timevals)
  have "flattened (add_timevals a b) = flattened a + flattened b
      \<longleftrightarrow> sint (tv_sec (add_timevals a b)) = ?s + ?c"
    unfolding flattened_def usec by (cases "1000000 \<le> ?u") auto
  with sec nov norm bound show ?thesis
    by simp
qed

text \<open>A sum with a microsecond carry: (1, 600000) + (2, 700000) = (4, 300000).\<close>

theorem add_timevals_normalizes_exact_witness:
  "fields_nonneg \<lparr>tv_sec = 1, tv_usec = 600000\<rparr>
   \<and> fields_nonneg \<lparr>tv_sec = 2, tv_usec = 700000\<rparr>
   \<and> usec_normalized \<lparr>tv_sec = 1, tv_usec = 600000\<rparr>
   \<and> usec_normalized \<lparr>tv_sec = 2, tv_usec = 700000\<rparr>
   \<and> add_timevals_no_overflow \<lparr>tv_sec = 1, tv_usec = 600000\<rparr> \<lparr>tv_sec = 2, tv_usec = 700000\<rparr>
   \<and> usec_normalized
        (add_timevals \<lparr>tv_sec = 1, tv_usec = 600000\<rparr> \<lparr>tv_sec = 2, tv_usec = 700000\<rparr>)
   \<and> flattened (add_timevals \<lparr>tv_sec = 1, tv_usec = 600000\<rparr> \<lparr>tv_sec = 2, tv_usec = 700000\<rparr>)
       = 4300000"
proof -
  let ?a = "\<lparr>tv_sec = 1, tv_usec = 600000\<rparr>" and ?b = "\<lparr>tv_sec = 2, tv_usec = 700000\<rparr>"
  have h: "fields_nonneg ?a" "fields_nonneg ?b" "usec_normalized ?a" "usec_normalized ?b"
    by (simp_all add: fields_nonneg_def usec_normalized_def)
  have nov: "add_timevals_no_overflow ?a ?b"
    by (simp add: add_timevals_no_overflow_def long_fits_def)
  have fl: "flattened ?a + flattened ?b = 4300000"
    by (simp add: flattened_def)
  show ?thesis
    using h nov fl add_timevals_normalizes_exact [OF h]
    by simp
qed

text \<open>The claim as stated fails where the seconds overflow: the largest \<^verbatim>\<open>long\<close> plus
  one second.\<close>

theorem add_timevals_exact_sum_counterexample:
  "fields_nonneg \<lparr>tv_sec = 9223372036854775807, tv_usec = 0\<rparr>
   \<and> fields_nonneg \<lparr>tv_sec = 1, tv_usec = 0\<rparr>
   \<and> usec_normalized \<lparr>tv_sec = 9223372036854775807, tv_usec = 0\<rparr>
   \<and> usec_normalized \<lparr>tv_sec = 1, tv_usec = 0\<rparr>
   \<and> flattened (add_timevals \<lparr>tv_sec = 9223372036854775807, tv_usec = 0\<rparr>
                                \<lparr>tv_sec = 1, tv_usec = 0\<rparr>)
       \<noteq> flattened \<lparr>tv_sec = 9223372036854775807, tv_usec = 0\<rparr>
         + flattened \<lparr>tv_sec = 1, tv_usec = 0\<rparr>"
  by (simp add: fields_nonneg_def usec_normalized_def flattened_def timeval_eval)

text \<open>
  C6. On the time values whose microsecond field is in \<open>[0, 1000000)\<close>,
  \<^verbatim>\<open>compare_timevals\<close> returns -1, 0 or 1, and it returns -1, 0, 1 exactly when the
  flattened value of the left operand is less than, equal to, greater than that of the
  right one. The result is 0 only for equal time values, swapping the operands swaps
  -1 and 1, and ``returns -1'' is transitive: a strict total order.
\<close>

theorem compare_timevals_strict_total_order:
  assumes "usec_normalized a" "usec_normalized b" "usec_normalized c"
  shows "compare_timevals a b \<in> {- 1, 0, 1}
       \<and> (compare_timevals a b = - 1 \<longleftrightarrow> flattened a < flattened b)
       \<and> (compare_timevals a b = 0 \<longleftrightarrow> flattened a = flattened b)
       \<and> (compare_timevals a b = 1 \<longleftrightarrow> flattened b < flattened a)
       \<and> (compare_timevals a b = 0 \<longleftrightarrow> a = b)
       \<and> (compare_timevals a b = - 1 \<longleftrightarrow> compare_timevals b a = 1)
       \<and> (compare_timevals a b = - 1 \<and> compare_timevals b c = - 1 \<longrightarrow>
            compare_timevals a c = - 1)"
proof -
  have lt: "compare_timevals x y = - 1 \<longleftrightarrow> flattened x < flattened y"
    if "usec_normalized x" "usec_normalized y" for x y
    using that by (simp add: compare_timevals_m1 compare_timevals_neg_iff flattened_less_iff)
  have gt: "compare_timevals x y = 1 \<longleftrightarrow> flattened y < flattened x"
    if "usec_normalized x" "usec_normalized y" for x y
    using that flattened_less_iff [of y x]
    by (simp add: compare_timevals_p1 compare_timevals_pos_iff) metis
  have eq: "compare_timevals a b = 0 \<longleftrightarrow> flattened a = flattened b"
    using assms by (simp add: compare_timevals_zero_iff flattened_eq_iff)
  have trans: "compare_timevals a b = - 1 \<and> compare_timevals b c = - 1 \<longrightarrow>
      compare_timevals a c = - 1"
    using assms by (simp add: lt)
  have anti: "compare_timevals a b = - 1 \<longleftrightarrow> compare_timevals b a = 1"
    using assms by (simp add: lt gt)
  show ?thesis
    using assms lt [of a b] gt [of a b] eq trans anti
      compare_timevals_range [of a b] compare_timevals_zero_iff [of a b]
    by blast
qed

theorem compare_timevals_strict_total_order_witness:
  "usec_normalized \<lparr>tv_sec = 1, tv_usec = 999999\<rparr>
   \<and> usec_normalized \<lparr>tv_sec = 2, tv_usec = 0\<rparr>
   \<and> usec_normalized \<lparr>tv_sec = 2, tv_usec = 1\<rparr>
   \<and> compare_timevals \<lparr>tv_sec = 1, tv_usec = 999999\<rparr> \<lparr>tv_sec = 2, tv_usec = 0\<rparr> = - 1
   \<and> compare_timevals \<lparr>tv_sec = 2, tv_usec = 0\<rparr> \<lparr>tv_sec = 2, tv_usec = 1\<rparr> = - 1
   \<and> compare_timevals \<lparr>tv_sec = 1, tv_usec = 999999\<rparr> \<lparr>tv_sec = 2, tv_usec = 1\<rparr> = - 1
   \<and> flattened \<lparr>tv_sec = 1, tv_usec = 999999\<rparr> < flattened \<lparr>tv_sec = 2, tv_usec = 0\<rparr>
   \<and> compare_timevals \<lparr>tv_sec = 2, tv_usec = 0\<rparr> \<lparr>tv_sec = 1, tv_usec = 999999\<rparr> = 1"
proof -
  let ?a = "\<lparr>tv_sec = 1, tv_usec = 999999\<rparr>"
  let ?b = "\<lparr>tv_sec = 2, tv_usec = 0\<rparr>"
  let ?c = "\<lparr>tv_sec = 2, tv_usec = 1\<rparr>"
  have h: "usec_normalized ?a" "usec_normalized ?b" "usec_normalized ?c"
    by (simp_all add: usec_normalized_def)
  have fab: "flattened ?a < flattened ?b" and fbc: "flattened ?b < flattened ?c"
    by (simp_all add: flattened_def)
  have ab: "compare_timevals ?a ?b = - 1"
    using fab compare_timevals_strict_total_order [OF h(1) h(2) h(3)] by blast
  have bc: "compare_timevals ?b ?c = - 1"
    using fbc compare_timevals_strict_total_order [OF h(2) h(3) h(3)] by blast
  have ac: "compare_timevals ?a ?c = - 1"
    using ab bc compare_timevals_strict_total_order [OF h(1) h(2) h(3)] by blast
  have ba: "compare_timevals ?b ?a = 1"
    using ab compare_timevals_strict_total_order [OF h(1) h(2) h(3)] by blast
  show ?thesis
    using h fab ab bc ac ba by simp
qed

text \<open>
  C7. When the checkpoint is strictly after \<open>current_time\<close>, \<^verbatim>\<open>is_timed_out\<close> (either
  overload) and \<^verbatim>\<open>is_timed_out_and_update_if_timed_out\<close> return false and leave the
  whole tracker, checkpoint and timeout, as it was. The functions have no other outcome:
  they return a boolean and a tracker on every input.
\<close>

theorem stale_sample_ignored:
  assumes "0 < compare_timevals (now s) current_time"
  shows "is_timed_out current_time tmo s = (False, s)
       \<and> is_timed_out_default current_time s = (False, s)
       \<and> is_timed_out_and_update_if_timed_out current_time s = (False, s)"
  using assms
  by (simp add: is_timed_out_default_def is_timed_out_def
      is_timed_out_and_update_if_timed_out_def)

theorem stale_sample_ignored_witness:
  "0 < compare_timevals
         (now \<lparr>timeout = \<lparr>tv_sec = 0, tv_usec = 0\<rparr>, now = \<lparr>tv_sec = 100, tv_usec = 1\<rparr>\<rparr>)
         \<lparr>tv_sec = 100, tv_usec = 0\<rparr>
   \<and> is_timed_out \<lparr>tv_sec = 100, tv_usec = 0\<rparr> \<lparr>tv_sec = 0, tv_usec = 0\<rparr>
       \<lparr>timeout = \<lparr>tv_sec = 0, tv_usec = 0\<rparr>, now = \<lparr>tv_sec = 100, tv_usec = 1\<rparr>\<rparr> =
       (False, \<lparr>timeout = \<lparr>tv_sec = 0, tv_usec = 0\<rparr>, now = \<lparr>tv_sec = 100, tv_usec = 1\<rparr>\<rparr>)
   \<and> is_timed_out_and_update_if_timed_out \<lparr>tv_sec = 100, tv_usec = 0\<rparr>
       \<lparr>timeout = \<lparr>tv_sec = 0, tv_usec = 0\<rparr>, now = \<lparr>tv_sec = 100, tv_usec = 1\<rparr>\<rparr> =
       (False, \<lparr>timeout = \<lparr>tv_sec = 0, tv_usec = 0\<rparr>, now = \<lparr>tv_sec = 100, tv_usec = 1\<rparr>\<rparr>)"
proof -
  let ?s = "\<lparr>timeout = \<lparr>tv_sec = 0, tv_usec = 0\<rparr>, now = \<lparr>tv_sec = 100, tv_usec = 1\<rparr>\<rparr>"
  have g: "0 < compare_timevals (now ?s) \<lparr>tv_sec = 100, tv_usec = 0\<rparr>"
    by (simp add: timeval_eval)
  show ?thesis
    using g stale_sample_ignored [OF g, of "\<lparr>tv_sec = 0, tv_usec = 0\<rparr>"]
    by simp
qed

text \<open>
  C8. Both overloads of \<^verbatim>\<open>is_timed_out\<close> and \<^verbatim>\<open>is_timed_out_and_update_if_timed_out\<close>
  leave the configured timeout as it was, on every tracker and every input; the tracker
  after the call differs from the tracker before it in the checkpoint at most.
\<close>

theorem timeout_checks_preserve_timeout:
  "timeout (snd (is_timed_out current_time tmo s)) = timeout s
   \<and> timeout (snd (is_timed_out_default current_time s)) = timeout s
   \<and> timeout (snd (is_timed_out_and_update_if_timed_out current_time s)) = timeout s
   \<and> snd (is_timed_out current_time tmo s) =
        s\<lparr>now := now (snd (is_timed_out current_time tmo s))\<rparr>
   \<and> snd (is_timed_out_default current_time s) =
        s\<lparr>now := now (snd (is_timed_out_default current_time s))\<rparr>
   \<and> snd (is_timed_out_and_update_if_timed_out current_time s) =
        s\<lparr>now := now (snd (is_timed_out_and_update_if_timed_out current_time s))\<rparr>"
  by (simp add: is_timed_out_default_def is_timed_out_def
      is_timed_out_and_update_if_timed_out_def Let_def)

theorem timeout_checks_preserve_timeout_witness:
  "timeout (snd (is_timed_out \<lparr>tv_sec = 106, tv_usec = 0\<rparr> \<lparr>tv_sec = 1, tv_usec = 0\<rparr>
      \<lparr>timeout = \<lparr>tv_sec = 5, tv_usec = 0\<rparr>, now = \<lparr>tv_sec = 100, tv_usec = 0\<rparr>\<rparr>))
     = \<lparr>tv_sec = 5, tv_usec = 0\<rparr>
   \<and> timeout (snd (is_timed_out_and_update_if_timed_out \<lparr>tv_sec = 106, tv_usec = 0\<rparr>
      \<lparr>timeout = \<lparr>tv_sec = 5, tv_usec = 0\<rparr>, now = \<lparr>tv_sec = 100, tv_usec = 0\<rparr>\<rparr>))
     = \<lparr>tv_sec = 5, tv_usec = 0\<rparr>"
  using timeout_checks_preserve_timeout
    [of "\<lparr>tv_sec = 106, tv_usec = 0\<rparr>" "\<lparr>tv_sec = 1, tv_usec = 0\<rparr>"
      "\<lparr>timeout = \<lparr>tv_sec = 5, tv_usec = 0\<rparr>, now = \<lparr>tv_sec = 100, tv_usec = 0\<rparr>\<rparr>"]
  by simp

text \<open>
  C9. On every tracker and every \<open>current_time\<close>, \<^verbatim>\<open>is_timed_out(current_time)\<close> with
  the configured timeout and \<^verbatim>\<open>is_timed_out_and_update_if_timed_out(current_time)\<close>
  return the same boolean. They leave the same tracker when the result is true and when
  the guard rejects the sample; when the guard passes and the result is false, the first
  has advanced the checkpoint to \<open>current_time\<close> and the second has left the tracker as it
  was.
\<close>

theorem is_timed_out_agrees_with_update_if_timed_out:
  "fst (is_timed_out_default current_time s) =
     fst (is_timed_out_and_update_if_timed_out current_time s)
   \<and> (fst (is_timed_out_and_update_if_timed_out current_time s) \<longrightarrow>
        snd (is_timed_out_default current_time s) =
          snd (is_timed_out_and_update_if_timed_out current_time s))
   \<and> (0 < compare_timevals (now s) current_time \<longrightarrow>
        snd (is_timed_out_default current_time s) =
          snd (is_timed_out_and_update_if_timed_out current_time s))
   \<and> (\<not> fst (is_timed_out_and_update_if_timed_out current_time s) \<and>
        compare_timevals (now s) current_time \<le> 0 \<longrightarrow>
        snd (is_timed_out_default current_time s) = s\<lparr>now := current_time\<rparr> \<and>
        snd (is_timed_out_and_update_if_timed_out current_time s) = s)"
  by (simp add: is_timed_out_default_def is_timed_out_def
      is_timed_out_and_update_if_timed_out_def Let_def)

text \<open>Checkpoint (100, 0), timeout 5 s: the sample (106, 0) times out, the sample
  (99, 0) is rejected by the guard, the sample (102, 0) passes the guard without a
  timeout.\<close>

theorem is_timed_out_agrees_with_update_if_timed_out_witness:
  "fst (is_timed_out_and_update_if_timed_out \<lparr>tv_sec = 106, tv_usec = 0\<rparr>
      \<lparr>timeout = \<lparr>tv_sec = 5, tv_usec = 0\<rparr>, now = \<lparr>tv_sec = 100, tv_usec = 0\<rparr>\<rparr>)
   \<and> is_timed_out_default \<lparr>tv_sec = 106, tv_usec = 0\<rparr>
        \<lparr>timeout = \<lparr>tv_sec = 5, tv_usec = 0\<rparr>, now = \<lparr>tv_sec = 100, tv_usec = 0\<rparr>\<rparr> =
      is_timed_out_and_update_if_timed_out \<lparr>tv_sec = 106, tv_usec = 0\<rparr>
        \<lparr>timeout = \<lparr>tv_sec = 5, tv_usec = 0\<rparr>, now = \<lparr>tv_sec = 100, tv_usec = 0\<rparr>\<rparr>
   \<and> 0 < compare_timevals
        (now \<lparr>timeout = \<lparr>tv_sec = 5, tv_usec = 0\<rparr>, now = \<lparr>tv_sec = 100, tv_usec = 0\<rparr>\<rparr>)
        \<lparr>tv_sec = 99, tv_usec = 0\<rparr>
   \<and> is_timed_out_default \<lparr>tv_sec = 99, tv_usec = 0\<rparr>
        \<lparr>timeout = \<lparr>tv_sec = 5, tv_usec = 0\<rparr>, now = \<lparr>tv_sec = 100, tv_usec = 0\<rparr>\<rparr> =
      is_timed_out_and_update_if_timed_out \<lparr>tv_sec = 99, tv_usec = 0\<rparr>
        \<lparr>timeout = \<lparr>tv_sec = 5, tv_usec = 0\<rparr>, now = \<lparr>tv_sec = 100, tv_usec = 0\<rparr>\<rparr>
   \<and> \<not> fst (is_timed_out_and_update_if_timed_out \<lparr>tv_sec = 102, tv_usec = 0\<rparr>
      \<lparr>timeout = \<lparr>tv_sec = 5, tv_usec = 0\<rparr>, now = \<lparr>tv_sec = 100, tv_usec = 0\<rparr>\<rparr>)
   \<and> compare_timevals
        (now \<lparr>timeout = \<lparr>tv_sec = 5, tv_usec = 0\<rparr>, now = \<lparr>tv_sec = 100, tv_usec = 0\<rparr>\<rparr>)
        \<lparr>tv_sec = 102, tv_usec = 0\<rparr> \<le> 0
   \<and> is_timed_out_default \<lparr>tv_sec = 102, tv_usec = 0\<rparr>
        \<lparr>timeout = \<lparr>tv_sec = 5, tv_usec = 0\<rparr>, now = \<lparr>tv_sec = 100, tv_usec = 0\<rparr>\<rparr> =
      (False, \<lparr>timeout = \<lparr>tv_sec = 5, tv_usec = 0\<rparr>, now = \<lparr>tv_sec = 102, tv_usec = 0\<rparr>\<rparr>)
   \<and> is_timed_out_and_update_if_timed_out \<lparr>tv_sec = 102, tv_usec = 0\<rparr>
        \<lparr>timeout = \<lparr>tv_sec = 5, tv_usec = 0\<rparr>, now = \<lparr>tv_sec = 100, tv_usec = 0\<rparr>\<rparr> =
      (False, \<lparr>timeout = \<lparr>tv_sec = 5, tv_usec = 0\<rparr>, now = \<lparr>tv_sec = 100, tv_usec = 0\<rparr>\<rparr>)"
proof -
  let ?s = "\<lparr>timeout = \<lparr>tv_sec = 5, tv_usec = 0\<rparr>, now = \<lparr>tv_sec = 100, tv_usec = 0\<rparr>\<rparr>"
  have t: "fst (is_timed_out_and_update_if_timed_out \<lparr>tv_sec = 106, tv_usec = 0\<rparr> ?s)"
    by (simp add: is_timed_out_and_update_if_timed_out_def timeval_eval)
  have g: "0 < compare_timevals (now ?s) \<lparr>tv_sec = 99, tv_usec = 0\<rparr>"
    by (simp add: timeval_eval)
  have f: "\<not> fst (is_timed_out_and_update_if_timed_out \<lparr>tv_sec = 102, tv_usec = 0\<rparr> ?s)"
    by (simp add: is_timed_out_and_update_if_timed_out_def timeval_eval)
  have p: "compare_timevals (now ?s) \<lparr>tv_sec = 102, tv_usec = 0\<rparr> \<le> 0"
    by (simp add: timeval_eval)
  show ?thesis
    using t g f p
      is_timed_out_agrees_with_update_if_timed_out [of "\<lparr>tv_sec = 106, tv_usec = 0\<rparr>" ?s]
      is_timed_out_agrees_with_update_if_timed_out [of "\<lparr>tv_sec = 99, tv_usec = 0\<rparr>" ?s]
      is_timed_out_agrees_with_update_if_timed_out [of "\<lparr>tv_sec = 102, tv_usec = 0\<rparr>" ?s]
    by (simp add: prod_eq_iff)
qed

text \<open>
  C10 (as amended). For every tracker whose timeout has non-negative fields and every
  \<open>current_time\<close> for which \<open>current_time\<close> plus the timeout does not overflow, two
  consecutive calls of \<^verbatim>\<open>is_timed_out\<close> with the same \<open>current_time\<close> yield false on
  the second call, which leaves the tracker as the first call left it. The same holds for
  the two-argument overload called twice with the same timeout.
\<close>

theorem is_timed_out_repeated_sample_false:
  assumes "fields_nonneg (timeout s)" "add_timevals_no_overflow current_time (timeout s)"
  shows "is_timed_out_default current_time (snd (is_timed_out_default current_time s)) =
           (False, snd (is_timed_out_default current_time s))
       \<and> is_timed_out current_time (timeout s)
           (snd (is_timed_out current_time (timeout s) s)) =
           (False, snd (is_timed_out current_time (timeout s) s))"
proof -
  have "timeout (snd (is_timed_out current_time (timeout s) s)) = timeout s"
    by (simp add: is_timed_out_def Let_def)
  then show ?thesis
    using is_timed_out_twice [OF assms, of s]
    by (simp add: is_timed_out_default_def)
qed

theorem is_timed_out_repeated_sample_false_witness:
  "fields_nonneg (timeout \<lparr>timeout = \<lparr>tv_sec = 5, tv_usec = 0\<rparr>,
                           now = \<lparr>tv_sec = 100, tv_usec = 0\<rparr>\<rparr>)
   \<and> add_timevals_no_overflow \<lparr>tv_sec = 106, tv_usec = 0\<rparr>
        (timeout \<lparr>timeout = \<lparr>tv_sec = 5, tv_usec = 0\<rparr>, now = \<lparr>tv_sec = 100, tv_usec = 0\<rparr>\<rparr>)
   \<and> fst (is_timed_out_default \<lparr>tv_sec = 106, tv_usec = 0\<rparr>
        \<lparr>timeout = \<lparr>tv_sec = 5, tv_usec = 0\<rparr>, now = \<lparr>tv_sec = 100, tv_usec = 0\<rparr>\<rparr>)
   \<and> \<not> fst (is_timed_out_default \<lparr>tv_sec = 106, tv_usec = 0\<rparr>
        (snd (is_timed_out_default \<lparr>tv_sec = 106, tv_usec = 0\<rparr>
          \<lparr>timeout = \<lparr>tv_sec = 5, tv_usec = 0\<rparr>, now = \<lparr>tv_sec = 100, tv_usec = 0\<rparr>\<rparr>)))"
proof -
  let ?s = "\<lparr>timeout = \<lparr>tv_sec = 5, tv_usec = 0\<rparr>, now = \<lparr>tv_sec = 100, tv_usec = 0\<rparr>\<rparr>"
  let ?ct = "\<lparr>tv_sec = 106, tv_usec = 0\<rparr>"
  have h: "fields_nonneg (timeout ?s)" "add_timevals_no_overflow ?ct (timeout ?s)"
    by (simp_all add: fields_nonneg_def add_timevals_no_overflow_def long_fits_def)
  have first: "fst (is_timed_out_default ?ct ?s)"
    by (simp add: is_timed_out_default_def is_timed_out_def timeval_eval)
  have second: "\<not> fst (is_timed_out_default ?ct (snd (is_timed_out_default ?ct ?s)))"
    using is_timed_out_repeated_sample_false [OF h] by (simp only: fst_conv simp_thms)
  show ?thesis
    using h first second by simp
qed

text \<open>The claim as stated fails where the deadline overflows: with a timeout of one
  second and the largest \<^verbatim>\<open>long\<close> as the seconds of \<open>current_time\<close>, the deadline
  wraps around to the smallest \<^verbatim>\<open>long\<close> and the second call reports a timeout.\<close>

theorem is_timed_out_repeated_sample_counterexample:
  "fields_nonneg (timeout \<lparr>timeout = \<lparr>tv_sec = 1, tv_usec = 0\<rparr>,
                           now = \<lparr>tv_sec = 0, tv_usec = 0\<rparr>\<rparr>)
   \<and> fst (is_timed_out_default \<lparr>tv_sec = 9223372036854775807, tv_usec = 0\<rparr>
        (snd (is_timed_out_default \<lparr>tv_sec = 9223372036854775807, tv_usec = 0\<rparr>
          \<lparr>timeout = \<lparr>tv_sec = 1, tv_usec = 0\<rparr>, now = \<lparr>tv_sec = 0, tv_usec = 0\<rparr>\<rparr>)))"
  by (simp add: fields_nonneg_def is_timed_out_default_def is_timed_out_def timeval_eval)

end
